theory Spec2Isabelle
  imports Main
begin

section \<open>Python strings\<close>

text \<open>
  A Python \<^verbatim>\<open>str\<close> is a sequence of Unicode code points. The scripts print emoji and
  call \<^verbatim>\<open>strip\<close> and the regular-expression class \<^verbatim>\<open>\s\<close>, both of which look at
  code points beyond ASCII, so a string is modelled as the list of its code points.
  \<open>str\<close> lifts an ASCII literal.
\<close>

type_synonym pystr = "nat list"

definition str :: "string \<Rightarrow> pystr" where
  "str s = map of_char s"

text \<open>
  \<^verbatim>\<open>str.isspace\<close> for one character, which is also what \<^verbatim>\<open>\s\<close> matches in a
  \<^verbatim>\<open>str\<close> pattern: the code points CPython's \<^verbatim>\<open>Py_UNICODE_ISSPACE\<close> accepts.
\<close>

definition isspace :: "nat \<Rightarrow> bool" where
  "isspace c \<longleftrightarrow>
     (9 \<le> c \<and> c \<le> 13) \<or> (28 \<le> c \<and> c \<le> 32) \<or> c = 133 \<or> c = 160 \<or> c = 5760 \<or>
     (8192 \<le> c \<and> c \<le> 8202) \<or> c = 8232 \<or> c = 8233 \<or> c = 8239 \<or> c = 8287 \<or> c = 12288"

text \<open>\<^verbatim>\<open>s.split('\n')\<close>: never empty; \<^verbatim>\<open>''.split('\n') == ['']\<close>.\<close>

fun split :: "nat \<Rightarrow> pystr \<Rightarrow> pystr list" where
  "split sep [] = [[]]"
| "split sep (c # cs) =
     (if c = sep then [] # split sep cs
      else (case split sep cs of
              [] \<Rightarrow> [[c]]
            | l # ls \<Rightarrow> (c # l) # ls))"

text \<open>\<^verbatim>\<open>s.strip()\<close> and \<^verbatim>\<open>s.startswith(p)\<close>.\<close>

definition strip :: "pystr \<Rightarrow> pystr" where
  "strip s = rev (dropWhile isspace (rev (dropWhile isspace s)))"

definition startswith :: "pystr \<Rightarrow> pystr \<Rightarrow> bool" where
  "startswith s p \<longleftrightarrow> take (length p) s = p"

text \<open>\<^verbatim>\<open>sep.join(xs)\<close>.\<close>

fun join :: "pystr \<Rightarrow> pystr list \<Rightarrow> pystr" where
  "join sep [] = []"
| "join sep [x] = x"
| "join sep (x # y # ys) = x @ sep @ join sep (y # ys)"

section \<open>The migration runner (run\_migration.py)\<close>

subsection \<open>The world outside the script\<close>

text \<open>
  Exceptions, by the class the script's handlers tell apart:
  \<^verbatim>\<open>FileNotFoundError\<close>, \<^verbatim>\<open>psycopg2.Error\<close> (with its message), and every other
  \<^verbatim>\<open>Exception\<close> (with its message).
\<close>

datatype exn = FileNotFoundError | Psycopg2Error pystr | OtherException pystr

text \<open>
  The file system, the database server and the formatting of column values are outside
  the script. A world gives the outcome of each call the script makes on them:
  \<^item> \<open>open_read p\<close>: \<^verbatim>\<open>open(p, 'r', encoding='utf-8')\<close> followed by \<^verbatim>\<open>f.read()\<close>;
  \<^item> \<open>connect\<close>: \<^verbatim>\<open>psycopg2.connect(**DB_CONFIG)\<close>, giving the database state seen
    through the connection;
  \<^item> \<open>execute db sql\<close>: \<^verbatim>\<open>cursor.execute(sql)\<close> on database state \<open>db\<close>, giving the
    state after it and the rows the cursor then holds (a row is the list of its columns);
  \<^item> \<open>str_of v\<close>: \<^verbatim>\<open>str(v)\<close>, as an f-string applies it to a column value.
  Each of the first three either raises (\<open>Inl\<close>) or returns (\<open>Inr\<close>). The calls
  \<^verbatim>\<open>print\<close>, \<^verbatim>\<open>conn.cursor()\<close>, \<^verbatim>\<open>fetchall\<close>, \<^verbatim>\<open>fetchone\<close> and \<^verbatim>\<open>close\<close> are taken
  to return normally.
\<close>

record ('db, 'v) world =
  open_read :: "pystr \<Rightarrow> exn + pystr"
  connect :: "exn + 'db"
  execute :: "'db \<Rightarrow> pystr \<Rightarrow> exn + ('db \<times> 'v list list)"
  str_of :: "'v \<Rightarrow> pystr"

text \<open>What a run does that can be seen from outside, in the order it does it.\<close>

datatype event =
    is_Print: Print pystr
  | OpenRead pystr
  | Connect
  | Autocommit bool
  | Cursor
  | is_Execute: Execute pystr
  | Fetchall
  | Fetchone
  | CursorClose
  | ConnClose

text \<open>
  A piece of the script: the events it produced, and either the exception that ended it
  or its value. \<open>bind\<close> is sequencing: an exception skips the rest.
\<close>

type_synonym 'a prog = "event list \<times> (exn + 'a)"

definition bind :: "'a prog \<Rightarrow> ('a \<Rightarrow> 'b prog) \<Rightarrow> 'b prog" where
  "bind m f =
     (case m of
        (t, Inl e) \<Rightarrow> (t, Inl e)
      | (t, Inr a) \<Rightarrow> (case f a of (t', r) \<Rightarrow> (t @ t', r)))"

definition print :: "pystr \<Rightarrow> unit prog" where
  "print s = ([Print s], Inr ())"

definition call :: "event \<Rightarrow> exn + 'a \<Rightarrow> 'a prog" where
  "call ev outcome = ([ev], outcome)"

definition raise :: "exn \<Rightarrow> 'a prog" where
  "raise e = ([], Inl e)"

definition return :: "'a \<Rightarrow> 'a prog" where
  "return a = ([], Inr a)"

subsection \<open>Constants of the script\<close>

definition migration_file :: pystr where
  "migration_file =
     str ''C:'' @ [92] @ str ''Users'' @ [92] @ str ''mormeli'' @ [92] @ str ''.gemini'' @ [92] @
     str ''antigravity'' @ [92] @ str ''scratch'' @ [92] @ str ''bebrafun'' @ [92] @
     str ''prediction-market'' @ [92] @ str ''migrations'' @ [92] @ str ''012_add_admin_user.sql''"

definition rule60 :: pystr where
  "rule60 = replicate 60 (of_char CHR ''='')"

definition dash60 :: pystr where
  "dash60 = replicate 60 (of_char CHR ''-'')"

definition duels_query :: pystr where
  "duels_query = str ''SELECT status, COUNT(*) FROM duels GROUP BY status;''"

definition markets_query :: pystr where
  "markets_query = str ''SELECT status, COUNT(*) FROM markets GROUP BY status;''"

definition admin_query :: pystr where
  "admin_query =
     [10] @ str ''        SELECT au.id, au.role, u.wallet_address, au.created_at'' @
     [10] @ str ''        FROM admin_users au'' @
     [10] @ str ''        JOIN users u ON u.id = au.user_id'' @
     [10] @ str ''        WHERE u.wallet_address = 'ARytv9UPs8ajtsHboVgtVJDwz1u7VrHTfDj8qERFrcJE';'' @
     [10] @ str ''    ''"

text \<open>The fixed lines the script prints; an emoji is written as its code point.\<close>

definition msg_reading :: pystr where
  "msg_reading = 0x1F4D6 # str '' Reading migration file...''"

definition msg_connecting :: pystr where
  "msg_connecting = 0x1F50C # str '' Connecting to Railway database...''"

definition msg_executing :: pystr where
  "msg_executing = 0x1F680 # str '' Executing migration...''"

definition msg_executed :: pystr where
  "msg_executed = 0x2705 # str '' Migration executed successfully!''"

definition msg_verification :: pystr where
  "msg_verification = 10 # 0x1F4CA # str '' Verification Results:''"

definition msg_duels :: pystr where
  "msg_duels = 10 # 0x1F94A # str '' Duels by status:''"

definition msg_markets :: pystr where
  "msg_markets = 10 # 0x1F4C8 # str '' Markets by status:''"

definition msg_admin :: pystr where
  "msg_admin = 10 # 0x1F464 # str '' Admin user:''"

definition msg_admin_not_found :: pystr where
  "msg_admin_not_found = str ''  '' @ 0x274C # str '' Admin user not found!''"

definition msg_all_done :: pystr where
  "msg_all_done = 0x2705 # str '' All done!''"

definition msg_file_not_found :: pystr where
  "msg_file_not_found = 0x274C # str '' Migration file not found: '' @ migration_file"

definition msg_database_error :: "pystr \<Rightarrow> pystr" where
  "msg_database_error e = 0x274C # str '' Database error: '' @ e"

definition msg_unexpected_error :: "pystr \<Rightarrow> pystr" where
  "msg_unexpected_error e = 0x274C # str '' Unexpected error: '' @ e"

subsection \<open>The body of the try statement\<close>

text \<open>
  Lines 21 to 23: \<^verbatim>\<open>sql_lines\<close> keeps the lines that, stripped, do not start with
  \<^verbatim>\<open>--\<close>; \<^verbatim>\<open>sql_clean\<close> joins them again.
\<close>

definition sql_lines :: "pystr \<Rightarrow> pystr list" where
  "sql_lines sql_content =
     filter (\<lambda>line. \<not> startswith (strip line) (str ''--'')) (split 10 sql_content)"

definition sql_clean :: "pystr \<Rightarrow> pystr" where
  "sql_clean sql_content = join [10] (sql_lines sql_content)"

text \<open>Lines 17 to 19: the banner, then the file is opened and read.\<close>

definition read_migration :: "('db, 'v) world \<Rightarrow> pystr prog" where
  "read_migration w =
     bind (print msg_reading) (\<lambda>_.
     call (OpenRead migration_file) (open_read w migration_file))"

text \<open>Lines 25 to 28: connect, switch autocommit on, open a cursor.\<close>

definition open_connection :: "('db, 'v) world \<Rightarrow> 'db prog" where
  "open_connection w =
     bind (print msg_connecting) (\<lambda>_.
     bind (call Connect (connect w)) (\<lambda>conn.
     bind (call (Autocommit True) (Inr ())) (\<lambda>_.
     bind (call Cursor (Inr ())) (\<lambda>_.
     return conn))))"

text \<open>Lines 30 to 37: the migration itself; what is executed is \<^verbatim>\<open>sql_content\<close>.\<close>

definition execute_migration :: "('db, 'v) world \<Rightarrow> 'db \<Rightarrow> pystr \<Rightarrow> 'db prog" where
  "execute_migration w db sql_content =
     bind (print msg_executing) (\<lambda>_.
     bind (print rule60) (\<lambda>_.
     bind (call (Execute sql_content) (execute w db sql_content)) (\<lambda>(db', _).
     bind (print msg_executed) (\<lambda>_.
     bind (print rule60) (\<lambda>_.
     return db')))))"

text \<open>
  \<^verbatim>\<open>for status, count in rows: print(f"  {status}: {count}")\<close>. Unpacking a row
  that does not have two columns raises \<^verbatim>\<open>ValueError\<close>, after the lines of the rows
  before it have been printed.
\<close>

definition unpack_error :: "nat \<Rightarrow> exn" where
  "unpack_error n =
     OtherException
       (if n < 2 then str ''not enough values to unpack (expected 2, got '' @
                      [of_char CHR ''0'' + n] @ str '')''
        else str ''too many values to unpack (expected 2)'')"

definition status_line :: "('db, 'v) world \<Rightarrow> 'v \<Rightarrow> 'v \<Rightarrow> pystr" where
  "status_line w status count = str ''  '' @ str_of w status @ str '': '' @ str_of w count"

fun print_status_rows :: "('db, 'v) world \<Rightarrow> 'v list list \<Rightarrow> unit prog" where
  "print_status_rows w [] = return ()"
| "print_status_rows w ([status, count] # rows) =
     bind (print (status_line w status count)) (\<lambda>_. print_status_rows w rows)"
| "print_status_rows w (row # rows) = raise (unpack_error (length row))"

text \<open>Lines 43 to 48 and 50 to 55: the two grouped counts.\<close>

definition check_duels :: "('db, 'v) world \<Rightarrow> 'db \<Rightarrow> 'db prog" where
  "check_duels w db =
     bind (call (Execute duels_query) (execute w db duels_query)) (\<lambda>(db', rows).
     bind (call Fetchall (Inr rows)) (\<lambda>duels_result.
     bind (print msg_duels) (\<lambda>_.
     bind (print_status_rows w duels_result) (\<lambda>_.
     return db'))))"

definition check_markets :: "('db, 'v) world \<Rightarrow> 'db \<Rightarrow> 'db prog" where
  "check_markets w db =
     bind (call (Execute markets_query) (execute w db markets_query)) (\<lambda>(db', rows).
     bind (call Fetchall (Inr rows)) (\<lambda>markets_result.
     bind (print msg_markets) (\<lambda>_.
     bind (print_status_rows w markets_result) (\<lambda>_.
     return db'))))"

text \<open>
  \<^verbatim>\<open>cursor.fetchone()\<close> is the first row the cursor holds, or \<^verbatim>\<open>None\<close>.
  \<^verbatim>\<open>if admin_result:\<close> is false for \<^verbatim>\<open>None\<close> and for an empty tuple.
  \<^verbatim>\<open>admin_result[i]\<close> raises \<^verbatim>\<open>IndexError\<close> beyond the row's columns.
\<close>

definition fetchone :: "'v list list \<Rightarrow> 'v list option" where
  "fetchone rows = (case rows of [] \<Rightarrow> None | row # _ \<Rightarrow> Some row)"

definition item :: "'v list \<Rightarrow> nat \<Rightarrow> 'v prog" where
  "item row i =
     (if i < length row then return (row ! i)
      else raise (OtherException (str ''tuple index out of range'')))"

text \<open>Lines 57 to 72: the admin record.\<close>

definition check_admin :: "('db, 'v) world \<Rightarrow> 'db \<Rightarrow> 'db prog" where
  "check_admin w db =
     bind (call (Execute admin_query) (execute w db admin_query)) (\<lambda>(db', rows).
     bind (call Fetchone (Inr (fetchone rows))) (\<lambda>admin_result.
     bind (print msg_admin) (\<lambda>_.
     bind (case admin_result of
             None \<Rightarrow> print msg_admin_not_found
           | Some row \<Rightarrow>
               if row = [] then print msg_admin_not_found
               else
                 bind (item row 0) (\<lambda>v0.
                 bind (print (str ''  ID: '' @ str_of w v0)) (\<lambda>_.
                 bind (item row 1) (\<lambda>v1.
                 bind (print (str ''  Role: '' @ str_of w v1)) (\<lambda>_.
                 bind (item row 2) (\<lambda>v2.
                 bind (print (str ''  Wallet: '' @ str_of w v2)) (\<lambda>_.
                 bind (item row 3) (\<lambda>v3.
                 print (str ''  Created: '' @ str_of w v3))))))))) (\<lambda>_.
     return db'))))"

text \<open>Lines 16 to 78, in the order of the script.\<close>

definition try_body :: "('db, 'v) world \<Rightarrow> unit prog" where
  "try_body w =
     bind (read_migration w) (\<lambda>sql_content.
     let sql_clean = sql_clean sql_content in
     bind (open_connection w) (\<lambda>conn.
     bind (execute_migration w conn sql_content) (\<lambda>db1.
     bind (print msg_verification) (\<lambda>_.
     bind (print dash60) (\<lambda>_.
     bind (check_duels w db1) (\<lambda>db2.
     bind (check_markets w db2) (\<lambda>db3.
     bind (check_admin w db3) (\<lambda>db4.
     bind (print (10 # rule60)) (\<lambda>_.
     bind (print msg_all_done) (\<lambda>_.
     bind (call CursorClose (Inr ())) (\<lambda>_.
     call ConnClose (Inr ()))))))))))))"

subsection \<open>The handlers and the exit code\<close>

text \<open>
  Lines 80 to 87: each handler prints one line and calls \<^verbatim>\<open>sys.exit(1)\<close>. A script
  that reaches its end exits with code 0.
\<close>

record run =
  trace :: "event list"
  exit_code :: int

definition main :: "('db, 'v) world \<Rightarrow> run" where
  "main w =
     (case try_body w of
        (t, Inr _) \<Rightarrow> \<lparr>trace = t, exit_code = 0\<rparr>
      | (t, Inl FileNotFoundError) \<Rightarrow>
          \<lparr>trace = t @ [Print msg_file_not_found], exit_code = 1\<rparr>
      | (t, Inl (Psycopg2Error e)) \<Rightarrow>
          \<lparr>trace = t @ [Print (msg_database_error e)], exit_code = 1\<rparr>
      | (t, Inl (OtherException e)) \<Rightarrow>
          \<lparr>trace = t @ [Print (msg_unexpected_error e)], exit_code = 1\<rparr>)"

text \<open>The calls of a run: its trace without the printed lines.\<close>

definition calls :: "event list \<Rightarrow> event list" where
  "calls t = filter (\<lambda>e. \<not> is_Print e) t"


text \<open>The calls of the script in the order of its lines, for payload \<open>sql_content\<close>.\<close>

definition script_calls :: "pystr \<Rightarrow> event list" where
  "script_calls sql_content =
     [OpenRead migration_file, Connect, Autocommit True, Cursor, Execute sql_content,
      Execute duels_query, Fetchall, Execute markets_query, Fetchall,
      Execute admin_query, Fetchone, CursorClose, ConnClose]"

subsection \<open>Some worlds\<close>

text \<open>
  The database state of these worlds counts the statements executed so far: the
  migration runs on state 0, the duels query on 1, the markets query on 2 and the admin
  lookup on 3.
\<close>

definition world_no_file :: "(nat, pystr) world" where
  "world_no_file =
     \<lparr>open_read = (\<lambda>p. Inl FileNotFoundError), connect = Inr 0,
      execute = (\<lambda>db sql. Inr (Suc db, [])), str_of = (\<lambda>v. v)\<rparr>"

definition world_bad_sql :: "(nat, pystr) world" where
  "world_bad_sql =
     \<lparr>open_read = (\<lambda>p. Inr (str ''SELEC 1;'')), connect = Inr 0,
      execute = (\<lambda>db sql. Inl (Psycopg2Error (str ''syntax error at or near SELEC''))),
      str_of = (\<lambda>v. v)\<rparr>"

definition world_no_admin :: "(nat, pystr) world" where
  "world_no_admin =
     \<lparr>open_read = (\<lambda>p. Inr (str ''SELECT 1;'')), connect = Inr 0,
      execute = (\<lambda>db sql. Inr (Suc db, if db = 1 then [[str ''active'', str ''2'']] else [])),
      str_of = (\<lambda>v. v)\<rparr>"

definition world_admins :: "(nat, pystr) world" where
  "world_admins =
     \<lparr>open_read = (\<lambda>p. Inr (str ''SELECT 1;'')), connect = Inr 0,
      execute = (\<lambda>db sql. Inr (Suc db,
         if db = 3 then [[str ''1'', str ''admin'', str ''W'', str ''2026''],
                         [str ''2'', str ''admin'', str ''W'', str ''2027'']]
         else [])),
      str_of = (\<lambda>v. v)\<rparr>"

definition world_one_admin :: "(nat, pystr) world" where
  "world_one_admin =
     \<lparr>open_read = (\<lambda>p. Inr (str ''SELECT 1;'')), connect = Inr 0,
      execute = (\<lambda>db sql. Inr (Suc db,
         if db = 1 then [[str ''active'', str ''2'']]
         else if db = 2 then [[str ''open'', str ''5''], [str ''closed'', str ''1'']]
         else if db = 3 then [[str ''1'', str ''admin'', str ''W'', str ''2026'']]
         else [])),
      str_of = (\<lambda>v. v)\<rparr>"

section \<open>The patching script (fix-auth.py)\<close>

subsection \<open>Regular expressions of the shape the script uses\<close>

text \<open>
  The script calls \<^verbatim>\<open>re.sub(old_pattern, new_code, content, flags=re.DOTALL)\<close>.
  \<^verbatim>\<open>old_pattern\<close> is a sequence of escaped literal characters and of \<^verbatim>\<open>\s+\<close>, with
  two capture groups around runs of them, and no dot, so the flag changes nothing. The
  module \<^verbatim>\<open>re\<close> is modelled for patterns of that shape: a pattern is a list of tokens,
  a literal text or \<^verbatim>\<open>\s+\<close>, and a list of groups, each the range of tokens it
  encloses.
\<close>

datatype token = Lit pystr | Spaces

text \<open>
  The matcher backtracks as the engine of \<^verbatim>\<open>re\<close> does. \<^verbatim>\<open>\s+\<close> is greedy: it first
  takes the whole run of white space, and gives characters back one at a time, down to
  one, until the rest of the pattern matches. A match is returned as the number of
  characters each token consumed.
\<close>

fun greedy :: "(pystr \<Rightarrow> nat list option) \<Rightarrow> pystr \<Rightarrow> nat \<Rightarrow> nat list option" where
  "greedy k s 0 = None"
| "greedy k s (Suc n) =
     (case k (drop (Suc n) s) of
        Some ns \<Rightarrow> Some (Suc n # ns)
      | None \<Rightarrow> greedy k s n)"

fun match_tokens :: "token list \<Rightarrow> pystr \<Rightarrow> nat list option" where
  "match_tokens [] s = Some []"
| "match_tokens (Lit l # ts) s =
     (if startswith s l then map_option ((#) (length l)) (match_tokens ts (drop (length l) s))
      else None)"
| "match_tokens (Spaces # ts) s = greedy (match_tokens ts) s (length (takeWhile isspace s))"

text \<open>
  \<open>re_match\<close> is \<^verbatim>\<open>pattern.match\<close> at the start of \<open>s\<close>: the texts of the groups
  and the length of the match. Group \<open>(a, b)\<close> is what the tokens from \<open>a\<close> up to,
  not including, \<open>b\<close> consumed.
\<close>

record regex =
  tokens :: "token list"
  groups :: "(nat \<times> nat) list"

definition group_text :: "pystr \<Rightarrow> nat list \<Rightarrow> nat \<times> nat \<Rightarrow> pystr" where
  "group_text s ns g =
     (case g of (a, b) \<Rightarrow> take (sum_list (take (b - a) (drop a ns))) (drop (sum_list (take a ns)) s))"

definition re_match :: "regex \<Rightarrow> pystr \<Rightarrow> (pystr list \<times> nat) option" where
  "re_match re s =
     (case match_tokens (tokens re) s of
        None \<Rightarrow> None
      | Some ns \<Rightarrow> Some (map (group_text s ns) (groups re), sum_list ns))"

text \<open>
  A replacement template is a list of back-references \<^verbatim>\<open>\1\<close>, \<^verbatim>\<open>\2\<close>, ... and of
  literal texts. \<open>re_sub\<close> is \<^verbatim>\<open>re.sub\<close>: it scans from the left, replaces each match
  it finds and goes on after it; where nothing matches it copies one character. After an
  empty match it copies one character too, as CPython does.
\<close>

datatype part = Backref nat | Text pystr

definition expand :: "part list \<Rightarrow> pystr list \<Rightarrow> pystr" where
  "expand repl gs =
     concat (map (\<lambda>p. case p of Backref i \<Rightarrow> gs ! (i - 1) | Text t \<Rightarrow> t) repl)"

fun re_sub :: "regex \<Rightarrow> part list \<Rightarrow> pystr \<Rightarrow> pystr" where
  "re_sub re repl [] =
     (case re_match re [] of None \<Rightarrow> [] | Some (gs, n) \<Rightarrow> expand repl gs)"
| "re_sub re repl (c # cs) =
     (case re_match re (c # cs) of
        None \<Rightarrow> c # re_sub re repl cs
      | Some (gs, n) \<Rightarrow>
          if n = 0 then expand repl gs @ c # re_sub re repl cs
          else expand repl gs @ re_sub re repl (drop (n - 1) cs))"


text \<open>
  Line 8, \<^verbatim>\<open>old_pattern\<close>, with its escapes removed. Group 1 is \<^verbatim>\<open>\s+\<close> and the call
  of \<^verbatim>\<open>console.log\<close>; then a \<^verbatim>\<open>\s+\<close>; group 2 is the call of \<^verbatim>\<open>fetch\<close> with its
  options, white space between them.
\<close>

definition log_call :: pystr where
  "log_call = str ''console.log('  payload:', JSON.stringify(payload, null, 2));''"

definition fetch_call :: pystr where
  "fetch_call =
     str ''const response = await fetch(`${import.meta.env.VITE_API_URL}/api/amm/pools`, {''"

definition old_pattern :: regex where
  "old_pattern =
     \<lparr>tokens =
        [Spaces, Lit log_call,
         Spaces,
         Spaces,
         Lit fetch_call,
         Spaces, Lit (str ''method: 'POST',''),
         Spaces, Lit (str ''headers: { 'Content-Type': 'application/json' },''),
         Spaces, Lit (str ''body: JSON.stringify(payload)''),
         Spaces, Lit (str ''});'')],
      groups = [(0, 2), (3, 13)]\<rparr>"

text \<open>
  Lines 10 to 29, \<^verbatim>\<open>new_code\<close>: group 1 again, followed by the inserted text. The
  two non-ASCII symbols of the text are U+2705 and U+26A0 U+FE0F.
\<close>

definition inserted :: pystr where
  "inserted =
     [10] @
     [10] @ str ''        // Get JWT token from localStorage'' @
     [10] @ str ''        const token = localStorage.getItem('token');'' @
     [10] @ str ''        const headers: HeadersInit = {'' @
     [10] @ str ''          'Content-Type': 'application/json'' @ [39] @
     [10] @ str ''        };'' @
     [10] @ str ''        '' @
     [10] @ str ''        if (token) {'' @
     [10] @ str ''          headers['Authorization'] = `Bearer ${token}`;'' @
     [10] @ str ''          console.log('  '' @ [9989] @ str '' Authorization token added');'' @
     [10] @ str ''        } else {'' @
     [10] @ str ''          console.warn('  '' @ [9888, 65039] @ str '' No auth token found in localStorage');'' @
     [10] @ str ''        }'' @
     [10] @ str ''        '' @
     [10] @ str ''        const response = await fetch(`${import.meta.env.VITE_API_URL}/api/amm/pools`, {'' @
     [10] @ str ''          method: 'POST','' @
     [10] @ str ''          headers,'' @
     [10] @ str ''          body: JSON.stringify(payload)'' @
     [10] @ str ''        });''"

definition new_code :: "part list" where
  "new_code = [Backref 1, Text inserted]"

subsection \<open>The script\<close>

text \<open>
  The file system maps a path to the text that reading the file at that path returns.
  Reading a file that is not there raises \<^verbatim>\<open>FileNotFoundError\<close>, which the script does
  not catch: it then writes nothing and prints nothing. Otherwise the script writes the
  patched text back to the same path and prints one line. Writing is taken to succeed.
\<close>

definition target_file :: pystr where
  "target_file = str ''src/services/blockchainService.ts''"




section \<open>Notions used in the proofs about the patching script\<close>

subsection \<open>Reading a match declaratively\<close>


subsection \<open>Literals that cannot run into a later match\<close>








subsection \<open>Text that cannot begin a match\<close>








text \<open>Line 32 of the script.\<close>

abbreviation patch :: "pystr \<Rightarrow> pystr" where
  "patch \<equiv> re_sub old_pattern new_code"

subsection \<open>Some files\<close>

text \<open>A file with the code the script looks for, and a file without it.\<close>

definition unpatched :: pystr where
  "unpatched =
     str ''  go();'' @
     [10] @ str ''        console.log('  payload:', JSON.stringify(payload, null, 2));'' @
     [10] @
     [10] @ str ''        const response = await fetch(`${import.meta.env.VITE_API_URL}/api/amm/pools`, {'' @
     [10] @ str ''          method: 'POST','' @
     [10] @ str ''          headers: { 'Content-Type': 'application/json' },'' @
     [10] @ str ''          body: JSON.stringify(payload)'' @
     [10] @ str ''        });'' @
     [10]"

definition fs_unpatched :: "pystr \<rightharpoonup> pystr" where
  "fs_unpatched = [target_file \<mapsto> unpatched]"


section \<open>Properties of the migration runner\<close>

subsection \<open>Sequencing\<close>

lemma bind_Inl: "bind (t, Inl e) f = (t, Inl e)"
  by (simp add: bind_def)

lemma bind_Inr: "bind (t, Inr a) f = (t @ fst (f a), snd (f a))"
  by (simp add: bind_def split: prod.splits)

lemma bind_print: "bind (print s) f = (Print s # fst (f ()), snd (f ()))"
  by (simp add: print_def bind_Inr)

lemma bind_return: "bind (return a) f = f a"
  by (simp add: return_def bind_Inr)

lemma bind_raise: "bind (raise e) f = raise e"
  by (simp add: raise_def bind_Inl)

lemma bind_call_Inr: "bind (call ev (Inr a)) f = (ev # fst (f a), snd (f a))"
  by (simp add: call_def bind_Inr)

lemma bind_call_Inl: "bind (call ev (Inl e)) f = ([ev], Inl e)"
  by (simp add: call_def bind_Inl)

subsection \<open>The blocks of the script, one outcome at a time\<close>

lemma print_status_rows_pairs:
  "print_status_rows w (map (\<lambda>(s, c). [s, c]) ps) =
     (map (\<lambda>(s, c). Print (status_line w s c)) ps, Inr ())"
  by (induction ps) (auto simp: return_def bind_print)

lemma calls_print_status_rows: "calls (fst (print_status_rows w rows)) = []"
  by (induction w rows rule: print_status_rows.induct)
     (simp_all add: calls_def return_def raise_def bind_print)

lemma read_migration_ok:
  "open_read w migration_file = Inr c \<Longrightarrow>
   read_migration w = ([Print msg_reading, OpenRead migration_file], Inr c)"
  by (simp add: read_migration_def bind_print call_def)

lemma read_migration_fail:
  "open_read w migration_file = Inl e \<Longrightarrow>
   read_migration w = ([Print msg_reading, OpenRead migration_file], Inl e)"
  by (simp add: read_migration_def bind_print call_def)

lemma open_connection_ok:
  "connect w = Inr db \<Longrightarrow>
   open_connection w = ([Print msg_connecting, Connect, Autocommit True, Cursor], Inr db)"
  by (simp add: open_connection_def bind_print bind_call_Inr return_def)

lemma open_connection_fail:
  "connect w = Inl e \<Longrightarrow> open_connection w = ([Print msg_connecting, Connect], Inl e)"
  by (simp add: open_connection_def bind_print bind_call_Inl)

lemma execute_migration_ok:
  "execute w db c = Inr (db', rows) \<Longrightarrow>
   execute_migration w db c =
     ([Print msg_executing, Print rule60, Execute c, Print msg_executed, Print rule60], Inr db')"
  by (simp add: execute_migration_def bind_print bind_call_Inr return_def)

lemma execute_migration_fail:
  "execute w db c = Inl e \<Longrightarrow>
   execute_migration w db c = ([Print msg_executing, Print rule60, Execute c], Inl e)"
  by (simp add: execute_migration_def bind_print bind_call_Inl)

lemma check_duels_ok:
  "execute w db duels_query = Inr (db', map (\<lambda>(s, c). [s, c]) ps) \<Longrightarrow>
   check_duels w db =
     ([Execute duels_query, Fetchall, Print msg_duels] @
      map (\<lambda>(s, c). Print (status_line w s c)) ps, Inr db')"
  by (simp add: check_duels_def bind_print bind_call_Inr bind_Inr return_def
      print_status_rows_pairs)

lemma check_markets_ok:
  "execute w db markets_query = Inr (db', map (\<lambda>(s, c). [s, c]) ps) \<Longrightarrow>
   check_markets w db =
     ([Execute markets_query, Fetchall, Print msg_markets] @
      map (\<lambda>(s, c). Print (status_line w s c)) ps, Inr db')"
  by (simp add: check_markets_def bind_print bind_call_Inr bind_Inr return_def
      print_status_rows_pairs)

lemma check_admin_none:
  "execute w db admin_query = Inr (db', []) \<Longrightarrow>
   check_admin w db =
     ([Execute admin_query, Fetchone, Print msg_admin, Print msg_admin_not_found], Inr db')"
  by (simp add: check_admin_def bind_print bind_call_Inr bind_Inr return_def fetchone_def
      print_def)

lemma check_admin_some:
  "execute w db admin_query = Inr (db', [i, r, a, t] # rest) \<Longrightarrow>
   check_admin w db =
     ([Execute admin_query, Fetchone, Print msg_admin,
       Print (str ''  ID: '' @ str_of w i), Print (str ''  Role: '' @ str_of w r),
       Print (str ''  Wallet: '' @ str_of w a), Print (str ''  Created: '' @ str_of w t)],
      Inr db')"
  by (simp add: check_admin_def bind_print bind_call_Inr bind_Inr bind_return return_def
      fetchone_def item_def print_def)


subsection \<open>The calls of each block\<close>

lemma fst_bind:
  "fst (bind m f) = fst m @ (case snd m of Inl e \<Rightarrow> [] | Inr a \<Rightarrow> fst (f a))"
  by (cases m) (simp add: bind_def split: sum.splits prod.splits)

lemma snd_bind:
  "snd (bind m f) = (case snd m of Inl e \<Rightarrow> Inl e | Inr a \<Rightarrow> snd (f a))"
  by (cases m) (simp add: bind_def split: sum.splits prod.splits)

lemma calls_append: "calls (s @ t) = calls s @ calls t"
  by (simp add: calls_def)

lemma calls_read_migration: "calls (fst (read_migration w)) = [OpenRead migration_file]"
  by (simp add: read_migration_def bind_print call_def calls_def)

lemma snd_read_migration: "snd (read_migration w) = open_read w migration_file"
  by (simp add: read_migration_def bind_print call_def)

lemma calls_open_connection:
  "calls (fst (open_connection w)) =
     (case connect w of Inl e \<Rightarrow> [Connect] | Inr db \<Rightarrow> [Connect, Autocommit True, Cursor])"
  by (cases "connect w")
     (simp_all add: open_connection_ok open_connection_fail calls_def)

lemma snd_open_connection: "snd (open_connection w) = connect w"
  by (cases "connect w") (simp_all add: open_connection_ok open_connection_fail)

lemma calls_execute_migration: "calls (fst (execute_migration w db c)) = [Execute c]"
  by (cases "execute w db c")
     (auto simp: execute_migration_ok execute_migration_fail calls_def)

lemma snd_execute_migration:
  "snd (execute_migration w db c) =
     (case execute w db c of Inl e \<Rightarrow> Inl e | Inr r \<Rightarrow> Inr (fst r))"
  by (cases "execute w db c")
     (auto simp: execute_migration_ok execute_migration_fail)

lemma calls_check_duels:
  "calls (fst (check_duels w db)) =
     (case execute w db duels_query of
        Inl e \<Rightarrow> [Execute duels_query]
      | Inr r \<Rightarrow> [Execute duels_query, Fetchall])"
  by (cases "execute w db duels_query")
     (auto simp: check_duels_def bind_call_Inl bind_call_Inr bind_print fst_bind calls_def
        calls_print_status_rows [unfolded calls_def] return_def split: sum.splits)

lemma calls_check_markets:
  "calls (fst (check_markets w db)) =
     (case execute w db markets_query of
        Inl e \<Rightarrow> [Execute markets_query]
      | Inr r \<Rightarrow> [Execute markets_query, Fetchall])"
  by (cases "execute w db markets_query")
     (auto simp: check_markets_def bind_call_Inl bind_call_Inr bind_print fst_bind calls_def
        calls_print_status_rows [unfolded calls_def] return_def split: sum.splits)

lemma check_duels_Inr:
  assumes "snd (check_duels w db) = Inr db'"
  shows "calls (fst (check_duels w db)) = [Execute duels_query, Fetchall]"
proof (cases "execute w db duels_query")
  case (Inl e)
  then have "snd (check_duels w db) = Inl e"
    by (simp add: check_duels_def bind_call_Inl)
  with assms show ?thesis by simp
next
  case (Inr r)
  then show ?thesis by (simp add: calls_check_duels)
qed

lemma check_markets_Inr:
  assumes "snd (check_markets w db) = Inr db'"
  shows "calls (fst (check_markets w db)) = [Execute markets_query, Fetchall]"
proof (cases "execute w db markets_query")
  case (Inl e)
  then have "snd (check_markets w db) = Inl e"
    by (simp add: check_markets_def bind_call_Inl)
  with assms show ?thesis by simp
next
  case (Inr r)
  then show ?thesis by (simp add: calls_check_markets)
qed

lemma calls_check_admin:
  "calls (fst (check_admin w db)) =
     (case execute w db admin_query of
        Inl e \<Rightarrow> [Execute admin_query]
      | Inr r \<Rightarrow> [Execute admin_query, Fetchone])"
  by (cases "execute w db admin_query")
     (auto simp: check_admin_def bind_call_Inl bind_call_Inr bind_print fst_bind snd_bind
        calls_def return_def raise_def print_def item_def
        split: sum.splits option.splits)

lemma check_admin_Inr:
  assumes "snd (check_admin w db) = Inr db'"
  shows "calls (fst (check_admin w db)) = [Execute admin_query, Fetchone]"
proof (cases "execute w db admin_query")
  case (Inl e)
  then have "snd (check_admin w db) = Inl e"
    by (simp add: check_admin_def bind_call_Inl)
  with assms show ?thesis by simp
next
  case (Inr r)
  then show ?thesis by (simp add: calls_check_admin)
qed

lemma calls_Nil: "calls [] = []"
  by (simp add: calls_def)

lemma calls_print: "calls (fst (print s)) = []" "snd (print s) = Inr ()"
  by (simp_all add: print_def calls_def)

lemma calls_call: "calls (fst (call ev r)) = (if is_Print ev then [] else [ev])" "snd (call ev r) = r"
  by (simp_all add: call_def calls_def)

lemma calls_try_body:
  "calls (fst (try_body w)) =
     OpenRead migration_file #
     (case open_read w migration_file of Inl e \<Rightarrow> [] | Inr c \<Rightarrow>
        calls (fst (open_connection w)) @
        (case connect w of Inl e \<Rightarrow> [] | Inr db \<Rightarrow>
           Execute c #
           (case snd (execute_migration w db c) of Inl e \<Rightarrow> [] | Inr db1 \<Rightarrow>
              calls (fst (check_duels w db1)) @
              (case snd (check_duels w db1) of Inl e \<Rightarrow> [] | Inr db2 \<Rightarrow>
                 calls (fst (check_markets w db2)) @
                 (case snd (check_markets w db2) of Inl e \<Rightarrow> [] | Inr db3 \<Rightarrow>
                    calls (fst (check_admin w db3)) @
                    (case snd (check_admin w db3) of Inl e \<Rightarrow> [] | Inr db4 \<Rightarrow>
                       [CursorClose, ConnClose]))))))"
  by (simp add: try_body_def fst_bind snd_bind calls_append calls_print calls_call calls_Nil
      calls_read_migration snd_read_migration snd_open_connection calls_execute_migration
      split: sum.splits)

lemma snd_try_body:
  "snd (try_body w) =
     (case open_read w migration_file of Inl e \<Rightarrow> Inl e | Inr c \<Rightarrow>
        (case connect w of Inl e \<Rightarrow> Inl e | Inr db \<Rightarrow>
           (case snd (execute_migration w db c) of Inl e \<Rightarrow> Inl e | Inr db1 \<Rightarrow>
              (case snd (check_duels w db1) of Inl e \<Rightarrow> Inl e | Inr db2 \<Rightarrow>
                 (case snd (check_markets w db2) of Inl e \<Rightarrow> Inl e | Inr db3 \<Rightarrow>
                    (case snd (check_admin w db3) of Inl e \<Rightarrow> Inl e | Inr db4 \<Rightarrow>
                       Inr ()))))))"
  by (simp add: try_body_def fst_bind snd_bind calls_print calls_call
      snd_read_migration snd_open_connection
      split: sum.splits)


subsection \<open>How far a run gets\<close>

text \<open>
  Every run is of one of five kinds, by the first call that raises, and its calls are an
  initial segment of the calls of the script.
\<close>

lemma calls_main: "calls (trace (main w)) = calls (fst (try_body w))"
  by (cases "try_body w")
     (auto simp: main_def calls_def split: sum.splits exn.splits)

lemma exit_code_main:
  "exit_code (main w) = (case snd (try_body w) of Inl e \<Rightarrow> 1 | Inr u \<Rightarrow> 0)"
  by (cases "try_body w")
     (auto simp: main_def split: sum.splits exn.splits)

lemma main_cases [case_names no_file no_connection migration_failed verification_failed success]:
  obtains
    (no_file) e where "open_read w migration_file = Inl e"
      "calls (trace (main w)) = take 1 (script_calls [])" "exit_code (main w) = 1"
  | (no_connection) c e where "open_read w migration_file = Inr c" "connect w = Inl e"
      "calls (trace (main w)) = take 2 (script_calls c)" "exit_code (main w) = 1"
  | (migration_failed) c db e where "open_read w migration_file = Inr c" "connect w = Inr db"
      "execute w db c = Inl e"
      "calls (trace (main w)) = take 5 (script_calls c)" "exit_code (main w) = 1"
  | (verification_failed) c db r k where "open_read w migration_file = Inr c"
      "connect w = Inr db" "execute w db c = Inr r" "k \<in> {6, 7, 8, 9, 10, 11}"
      "calls (trace (main w)) = take k (script_calls c)" "exit_code (main w) = 1"
  | (success) c db r where "open_read w migration_file = Inr c"
      "connect w = Inr db" "execute w db c = Inr r"
      "calls (trace (main w)) = script_calls c" "exit_code (main w) = 0"
proof (cases "open_read w migration_file")
  case (Inl e)
  then have "calls (trace (main w)) = take 1 (script_calls [])" "exit_code (main w) = 1"
    by (simp_all add: calls_main exit_code_main calls_try_body snd_try_body script_calls_def)
  with Inl show ?thesis by (rule no_file)
next
  case c: (Inr c)
  show ?thesis
  proof (cases "connect w")
    case (Inl e)
    with c have "calls (trace (main w)) = take 2 (script_calls c)" "exit_code (main w) = 1"
      by (simp_all add: calls_main exit_code_main calls_try_body snd_try_body script_calls_def
          calls_open_connection)
    with c Inl show ?thesis by (rule no_connection)
  next
    case db: (Inr db)
    show ?thesis
    proof (cases "execute w db c")
      case (Inl e)
      with c db have "calls (trace (main w)) = take 5 (script_calls c)" "exit_code (main w) = 1"
        by (simp_all add: calls_main exit_code_main calls_try_body snd_try_body
            script_calls_def calls_open_connection snd_execute_migration)
      with c db Inl show ?thesis by (rule migration_failed)
    next
      case r: (Inr r)
      have ex: "snd (execute_migration w db c) = Inr (fst r)"
        using r by (simp add: snd_execute_migration)
      note fail = verification_failed [OF c db r]
      show ?thesis
      proof (cases "snd (check_duels w (fst r))")
        case (Inl e)
        have "calls (fst (check_duels w (fst r))) = take 1 [Execute duels_query, Fetchall] \<or>
              calls (fst (check_duels w (fst r))) = take 2 [Execute duels_query, Fetchall]"
          by (simp add: calls_check_duels split: sum.splits)
        then have disj: "calls (trace (main w)) = take 6 (script_calls c) \<or>
                   calls (trace (main w)) = take 7 (script_calls c)"
          using c db ex Inl
          by (auto simp: calls_main calls_try_body script_calls_def calls_open_connection)
        have e1: "exit_code (main w) = 1"
          using c db ex Inl by (simp add: exit_code_main snd_try_body)
        from disj show ?thesis
        proof
          assume h: "calls (trace (main w)) = take 6 (script_calls c)"
          show ?thesis by (rule fail [OF _ h e1]) simp
        next
          assume h: "calls (trace (main w)) = take 7 (script_calls c)"
          show ?thesis by (rule fail [OF _ h e1]) simp
        qed
      next
        case d: (Inr db2)
        note cd = check_duels_Inr [OF d]
        show ?thesis
        proof (cases "snd (check_markets w db2)")
          case (Inl e)
          have "calls (fst (check_markets w db2)) = take 1 [Execute markets_query, Fetchall] \<or>
                calls (fst (check_markets w db2)) = take 2 [Execute markets_query, Fetchall]"
            by (simp add: calls_check_markets split: sum.splits)
          then have disj: "calls (trace (main w)) = take 8 (script_calls c) \<or>
                     calls (trace (main w)) = take 9 (script_calls c)"
            using c db ex d cd Inl
            by (auto simp: calls_main calls_try_body script_calls_def calls_open_connection)
          have e1: "exit_code (main w) = 1"
            using c db ex d Inl by (simp add: exit_code_main snd_try_body)
          from disj show ?thesis
          proof
            assume h: "calls (trace (main w)) = take 8 (script_calls c)"
            show ?thesis by (rule fail [OF _ h e1]) simp
          next
            assume h: "calls (trace (main w)) = take 9 (script_calls c)"
            show ?thesis by (rule fail [OF _ h e1]) simp
          qed
        next
          case m: (Inr db3)
          note cm = check_markets_Inr [OF m]
          show ?thesis
          proof (cases "snd (check_admin w db3)")
            case (Inl e)
            have "calls (fst (check_admin w db3)) = take 1 [Execute admin_query, Fetchone] \<or>
                  calls (fst (check_admin w db3)) = take 2 [Execute admin_query, Fetchone]"
              by (simp add: calls_check_admin split: sum.splits)
            then have disj: "calls (trace (main w)) = take 10 (script_calls c) \<or>
                       calls (trace (main w)) = take 11 (script_calls c)"
              using c db ex d cd m cm Inl
              by (auto simp: calls_main calls_try_body script_calls_def calls_open_connection)
            have e1: "exit_code (main w) = 1"
              using c db ex d m Inl by (simp add: exit_code_main snd_try_body)
            from disj show ?thesis
            proof
              assume h: "calls (trace (main w)) = take 10 (script_calls c)"
              show ?thesis by (rule fail [OF _ h e1]) simp
            next
              assume h: "calls (trace (main w)) = take 11 (script_calls c)"
              show ?thesis by (rule fail [OF _ h e1]) simp
            qed
          next
            case a: (Inr db4)
            note ca = check_admin_Inr [OF a]
            have h: "calls (trace (main w)) = script_calls c"
              using c db ex d cd m cm a ca
              by (simp add: calls_main calls_try_body script_calls_def calls_open_connection)
            have e0: "exit_code (main w) = 0"
              using c db ex d m a by (simp add: exit_code_main snd_try_body)
            from c db r h e0 show ?thesis by (rule success)
          qed
        qed
      qed
    qed
  qed
qed

lemma filter_is_Execute_calls: "filter is_Execute (calls t) = filter is_Execute t"
  by (induction t) (auto simp: calls_def)

lemma set_calls: "set (calls t) = {e \<in> set t. \<not> is_Print e}"
  by (auto simp: calls_def)

lemma count_list_calls: "\<not> is_Print e \<Longrightarrow> count_list (calls t) e = count_list t e"
  by (induction t) (auto simp: calls_def)

lemma calls_decompose:
  "t = pre @ e # post \<Longrightarrow> \<not> is_Print e \<Longrightarrow> calls t = calls pre @ e # calls post"
  by (simp add: calls_def)

subsection \<open>What is executed\<close>

text \<open>
  Claim C1. The SQL text executed against the database is exactly the text read from the
  migration file: whenever the file is read and the connection opens, the first
  \<^verbatim>\<open>cursor.execute\<close> of the run is given the loaded payload \<open>c\<close> itself. The
  comment-stripped \<^verbatim>\<open>sql_clean\<close> is computed and never used.
\<close>

theorem executed_sql_is_payload:
  assumes "open_read w migration_file = Inr c" and "connect w = Inr db"
  shows "\<exists>rest. filter is_Execute (trace (main w)) = Execute c # rest"
proof -
  have "\<exists>rest. filter is_Execute (calls (trace (main w))) = Execute c # rest"
  proof (cases w rule: main_cases)
    case (no_file e)
    with assms show ?thesis by simp
  next
    case (no_connection c' e)
    with assms show ?thesis by simp
  next
    case (migration_failed c' db' e)
    with assms show ?thesis by (simp add: script_calls_def)
  next
    case (verification_failed c' db' r k)
    with assms show ?thesis by (auto simp: script_calls_def)
  next
    case (success c' db' r)
    with assms show ?thesis by (simp add: script_calls_def)
  qed
  then show ?thesis by (simp add: filter_is_Execute_calls)
qed

theorem executed_sql_is_payload_witness:
  "open_read world_no_admin migration_file = Inr (str ''SELECT 1;'') \<and>
   connect world_no_admin = Inr 0 \<and>
   (\<exists>rest. filter is_Execute (trace (main world_no_admin)) = Execute (str ''SELECT 1;'') # rest)"
proof -
  have h1: "open_read world_no_admin migration_file = Inr (str ''SELECT 1;'')"
    and h2: "connect world_no_admin = Inr 0"
    by (simp_all add: world_no_admin_def)
  from h1 h2 executed_sql_is_payload [OF h1 h2] show ?thesis by blast
qed

text \<open>The stripped text can differ from the payload, so the claim is not an accident.\<close>

lemma sql_clean_drops_comment_lines:
  "sql_clean (str ''-- add admin\<newline>SELECT 1;'') = str ''SELECT 1;''"
  by (simp add: sql_clean_def sql_lines_def str_def strip_def startswith_def isspace_def)

subsection \<open>Fatal steps\<close>

text \<open>
  Claim C3. When executing the payload raises (an engine-side error such as a syntax
  error, or any other exception), the run exits with code 1 after attempting the
  execution, and none of the three verification queries is run: the execution of the
  payload is the last call of the run.
\<close>

theorem execution_error_is_fatal:
  assumes "open_read w migration_file = Inr c" and "connect w = Inr db"
    and "execute w db c = Inl e"
  shows "exit_code (main w) = 1 \<and>
         calls (trace (main w)) =
           [OpenRead migration_file, Connect, Autocommit True, Cursor, Execute c]"
proof (cases w rule: main_cases)
  case (no_file e)
  with assms show ?thesis by simp
next
  case (no_connection c' e)
  with assms show ?thesis by simp
next
  case (migration_failed c' db' e)
  with assms show ?thesis by (simp add: script_calls_def)
next
  case (verification_failed c' db' r k)
  with assms show ?thesis by simp
next
  case (success c' db' r)
  with assms show ?thesis by simp
qed

theorem execution_error_is_fatal_witness:
  "open_read world_bad_sql migration_file = Inr (str ''SELEC 1;'') \<and>
   connect world_bad_sql = Inr 0 \<and>
   execute world_bad_sql 0 (str ''SELEC 1;'') =
     Inl (Psycopg2Error (str ''syntax error at or near SELEC'')) \<and>
   exit_code (main world_bad_sql) = 1 \<and>
   calls (trace (main world_bad_sql)) =
     [OpenRead migration_file, Connect, Autocommit True, Cursor, Execute (str ''SELEC 1;'')]"
proof -
  have h1: "open_read world_bad_sql migration_file = Inr (str ''SELEC 1;'')"
    and h2: "connect world_bad_sql = Inr 0"
    and h3: "execute world_bad_sql 0 (str ''SELEC 1;'') =
      Inl (Psycopg2Error (str ''syntax error at or near SELEC''))"
    by (simp_all add: world_bad_sql_def)
  from h1 h2 h3 execution_error_is_fatal [OF h1 h2 h3] show ?thesis by blast
qed



subsection \<open>Verification\<close>

text \<open>The trace of a run up to the admin lookup, when nothing has raised before it.\<close>

lemma try_body_before_admin:
  assumes "open_read w migration_file = Inr c" and "connect w = Inr db0"
    and "execute w db0 c = Inr (db1, rows)"
    and "execute w db1 duels_query = Inr (db2, map (\<lambda>(s, n). [s, n]) duels)"
    and "execute w db2 markets_query = Inr (db3, map (\<lambda>(s, n). [s, n]) markets)"
  shows "try_body w =
     ([Print msg_reading, OpenRead migration_file, Print msg_connecting, Connect,
       Autocommit True, Cursor, Print msg_executing, Print rule60, Execute c,
       Print msg_executed, Print rule60, Print msg_verification, Print dash60,
       Execute duels_query, Fetchall, Print msg_duels] @
      map (\<lambda>(s, n). Print (status_line w s n)) duels @
      [Execute markets_query, Fetchall, Print msg_markets] @
      map (\<lambda>(s, n). Print (status_line w s n)) markets @
      fst (check_admin w db3) @
      (case snd (check_admin w db3) of
         Inl e \<Rightarrow> []
       | Inr db4 \<Rightarrow> [Print (10 # rule60), Print msg_all_done, CursorClose, ConnClose]),
      (case snd (check_admin w db3) of Inl e \<Rightarrow> Inl e | Inr db4 \<Rightarrow> Inr ()))"
proof -
  note blocks = read_migration_ok [OF assms(1)] open_connection_ok [OF assms(2)]
    execute_migration_ok [OF assms(3)] check_duels_ok [OF assms(4)]
    check_markets_ok [OF assms(5)]
  show ?thesis
    by (cases "check_admin w db3"; cases "snd (check_admin w db3)")
       (simp_all add: try_body_def blocks bind_Inr bind_Inl bind_print bind_call_Inr call_def)
qed

text \<open>
  Claim C5. When the migration executes and the two grouped counts are shown, but the
  admin lookup returns no row, the run prints the not-found warning, goes on to the closing
  lines and the two \<^verbatim>\<open>close\<close> calls, and exits with code 0.
\<close>

theorem lookup_miss_is_not_fatal:
  assumes "open_read w migration_file = Inr c" and "connect w = Inr db0"
    and "execute w db0 c = Inr (db1, rows)"
    and "execute w db1 duels_query = Inr (db2, map (\<lambda>(s, n). [s, n]) duels)"
    and "execute w db2 markets_query = Inr (db3, map (\<lambda>(s, n). [s, n]) markets)"
    and "execute w db3 admin_query = Inr (db4, [])"
  shows "exit_code (main w) = 0 \<and>
    trace (main w) =
      [Print msg_reading, OpenRead migration_file, Print msg_connecting, Connect,
       Autocommit True, Cursor, Print msg_executing, Print rule60, Execute c,
       Print msg_executed, Print rule60, Print msg_verification, Print dash60,
       Execute duels_query, Fetchall, Print msg_duels] @
      map (\<lambda>(s, n). Print (status_line w s n)) duels @
      [Execute markets_query, Fetchall, Print msg_markets] @
      map (\<lambda>(s, n). Print (status_line w s n)) markets @
      [Execute admin_query, Fetchone, Print msg_admin, Print msg_admin_not_found,
       Print (10 # rule60), Print msg_all_done, CursorClose, ConnClose]"
  by (simp add: main_def try_body_before_admin [OF assms(1-5)] check_admin_none [OF assms(6)])

theorem lookup_miss_is_not_fatal_witness:
  "open_read world_no_admin migration_file = Inr (str ''SELECT 1;'') \<and>
   connect world_no_admin = Inr 0 \<and>
   execute world_no_admin 3 admin_query = Inr (4, []) \<and>
   exit_code (main world_no_admin) = 0 \<and>
   trace (main world_no_admin) =
      [Print msg_reading, OpenRead migration_file, Print msg_connecting, Connect,
       Autocommit True, Cursor, Print msg_executing, Print rule60, Execute (str ''SELECT 1;''),
       Print msg_executed, Print rule60, Print msg_verification, Print dash60,
       Execute duels_query, Fetchall, Print msg_duels,
       Print (str ''  active: 2''),
       Execute markets_query, Fetchall, Print msg_markets,
       Execute admin_query, Fetchone, Print msg_admin, Print msg_admin_not_found,
       Print (10 # rule60), Print msg_all_done, CursorClose, ConnClose]"
proof -
  have h1: "open_read world_no_admin migration_file = Inr (str ''SELECT 1;'')"
    and h2: "connect world_no_admin = Inr 0"
    and h3: "execute world_no_admin 0 (str ''SELECT 1;'') = Inr (1, [])"
    and h4: "execute world_no_admin 1 duels_query =
      Inr (2, map (\<lambda>(s, n). [s, n]) [(str ''active'', str ''2'')])"
    and h5: "execute world_no_admin 2 markets_query = Inr (3, map (\<lambda>(s, n). [s, n]) [])"
    and h6: "execute world_no_admin 3 admin_query = Inr (4, [])"
    by (simp_all add: world_no_admin_def)
  have s: "status_line world_no_admin (str ''active'') (str ''2'') = str ''  active: 2''"
    by (simp add: status_line_def world_no_admin_def str_def)
  from lookup_miss_is_not_fatal [OF h1 h2 h3 h4 h5 h6] h1 h2 h6 show ?thesis
    by (simp add: s)
qed

text \<open>
  Claim C6. When the admin lookup returns exactly one row, the run displays that row's id,
  role, wallet address and creation timestamp, each by one line of the admin block and
  each once in that block.
\<close>

theorem admin_record_is_displayed:
  assumes "open_read w migration_file = Inr c" and "connect w = Inr db0"
    and "execute w db0 c = Inr (db1, rows)"
    and "execute w db1 duels_query = Inr (db2, map (\<lambda>(s, n). [s, n]) duels)"
    and "execute w db2 markets_query = Inr (db3, map (\<lambda>(s, n). [s, n]) markets)"
    and "execute w db3 admin_query = Inr (db4, [[i, r, a, t]])"
  shows "trace (main w) =
      [Print msg_reading, OpenRead migration_file, Print msg_connecting, Connect,
       Autocommit True, Cursor, Print msg_executing, Print rule60, Execute c,
       Print msg_executed, Print rule60, Print msg_verification, Print dash60,
       Execute duels_query, Fetchall, Print msg_duels] @
      map (\<lambda>(s, n). Print (status_line w s n)) duels @
      [Execute markets_query, Fetchall, Print msg_markets] @
      map (\<lambda>(s, n). Print (status_line w s n)) markets @
      [Execute admin_query, Fetchone, Print msg_admin,
       Print (str ''  ID: '' @ str_of w i), Print (str ''  Role: '' @ str_of w r),
       Print (str ''  Wallet: '' @ str_of w a), Print (str ''  Created: '' @ str_of w t),
       Print (10 # rule60), Print msg_all_done, CursorClose, ConnClose] \<and>
    (\<forall>line \<in> {str ''  ID: '' @ str_of w i, str ''  Role: '' @ str_of w r,
               str ''  Wallet: '' @ str_of w a, str ''  Created: '' @ str_of w t}.
       count_list (fst (check_admin w db3)) (Print line) = 1)"
proof -
  have "msg_admin \<noteq> str ''  ID: '' @ str_of w i" "msg_admin \<noteq> str ''  Role: '' @ str_of w r"
    "msg_admin \<noteq> str ''  Wallet: '' @ str_of w a" "msg_admin \<noteq> str ''  Created: '' @ str_of w t"
    by (simp_all add: msg_admin_def str_def)
  then show ?thesis
    by (simp add: main_def try_body_before_admin [OF assms(1-5)] check_admin_some [OF assms(6)]
        str_def)
qed

theorem admin_record_is_displayed_witness:
  "execute world_one_admin 3 admin_query =
      Inr (4, [[str ''1'', str ''admin'', str ''W'', str ''2026'']]) \<and>
   trace (main world_one_admin) =
      [Print msg_reading, OpenRead migration_file, Print msg_connecting, Connect,
       Autocommit True, Cursor, Print msg_executing, Print rule60, Execute (str ''SELECT 1;''),
       Print msg_executed, Print rule60, Print msg_verification, Print dash60,
       Execute duels_query, Fetchall, Print msg_duels,
       Print (str ''  active: 2''),
       Execute markets_query, Fetchall, Print msg_markets,
       Print (str ''  open: 5''), Print (str ''  closed: 1''),
       Execute admin_query, Fetchone, Print msg_admin,
       Print (str ''  ID: 1''), Print (str ''  Role: admin''),
       Print (str ''  Wallet: W''), Print (str ''  Created: 2026''),
       Print (10 # rule60), Print msg_all_done, CursorClose, ConnClose] \<and>
   count_list (fst (check_admin world_one_admin 3)) (Print (str ''  ID: 1'')) = 1"
proof -
  have h1: "open_read world_one_admin migration_file = Inr (str ''SELECT 1;'')"
    and h2: "connect world_one_admin = Inr 0"
    and h3: "execute world_one_admin 0 (str ''SELECT 1;'') = Inr (1, [])"
    and h4: "execute world_one_admin 1 duels_query =
      Inr (2, map (\<lambda>(s, n). [s, n]) [(str ''active'', str ''2'')])"
    and h5: "execute world_one_admin 2 markets_query =
      Inr (3, map (\<lambda>(s, n). [s, n]) [(str ''open'', str ''5''), (str ''closed'', str ''1'')])"
    and h6: "execute world_one_admin 3 admin_query =
      Inr (4, [[str ''1'', str ''admin'', str ''W'', str ''2026'']])"
    by (simp_all add: world_one_admin_def)
  have s: "str_of world_one_admin = (\<lambda>v. v)"
    by (simp add: world_one_admin_def)
  from admin_record_is_displayed [OF h1 h2 h3 h4 h5 h6] h6 show ?thesis
    by (simp add: s status_line_def str_def)
qed

text \<open>
  Claim C10. However many rows the admin lookup returns, the admin block fetches once,
  with \<^verbatim>\<open>fetchone\<close>, and displays the first row only; no run calls
  \<^verbatim>\<open>fetchone\<close> more than once.
\<close>

theorem admin_lookup_reports_first_row_only:
  assumes "execute w db admin_query = Inr (db', [i, r, a, t] # rest)"
  shows "check_admin w db =
       ([Execute admin_query, Fetchone, Print msg_admin,
         Print (str ''  ID: '' @ str_of w i), Print (str ''  Role: '' @ str_of w r),
         Print (str ''  Wallet: '' @ str_of w a), Print (str ''  Created: '' @ str_of w t)],
        Inr db') \<and>
     count_list (trace (main w)) Fetchone \<le> 1"
proof -
  have "count_list (calls (trace (main w))) Fetchone \<le> 1"
    by (cases w rule: main_cases) (auto simp: script_calls_def)
  then have "count_list (trace (main w)) Fetchone \<le> 1"
    by (simp add: count_list_calls)
  with check_admin_some [OF assms] show ?thesis by simp
qed

theorem admin_lookup_reports_first_row_only_witness:
  "execute world_admins 3 admin_query =
     Inr (4, [str ''1'', str ''admin'', str ''W'', str ''2026''] #
             [[str ''2'', str ''admin'', str ''W'', str ''2027'']]) \<and>
   check_admin world_admins 3 =
       ([Execute admin_query, Fetchone, Print msg_admin,
         Print (str ''  ID: 1''), Print (str ''  Role: admin''),
         Print (str ''  Wallet: W''), Print (str ''  Created: 2026'')],
        Inr 4) \<and>
   count_list (trace (main world_admins)) Fetchone \<le> 1"
proof -
  have h: "execute world_admins 3 admin_query =
     Inr (4, [str ''1'', str ''admin'', str ''W'', str ''2026''] #
             [[str ''2'', str ''admin'', str ''W'', str ''2027'']])"
    by (simp add: world_admins_def)
  have s: "str_of world_admins = (\<lambda>v. v)"
    by (simp add: world_admins_def)
  from admin_lookup_reports_first_row_only [OF h] h show ?thesis
    by (simp add: s str_def)
qed

lemma set_calls_subset: "e \<in> set (calls t) \<Longrightarrow> e \<in> set t"
  by (simp add: calls_def)

lemma no_Execute_calls: "(\<forall>e \<in> set (calls t). \<not> is_Execute e) \<longleftrightarrow> (\<forall>e \<in> set t. \<not> is_Execute e)"
  by (auto simp: calls_def is_Print_def is_Execute_def)

lemma order_in_calls:
  assumes "calls (trace (main w)) = P @ Execute q # S"
  shows "\<exists>c. open_read w migration_file = Inr c \<and>
           OpenRead migration_file \<in> set P \<and> Connect \<in> set P \<and> Autocommit True \<in> set P \<and>
           (if \<forall>e \<in> set P. \<not> is_Execute e then q = c
            else (\<exists>db r. connect w = Inr db \<and> execute w db c = Inr r) \<and>
                 Execute c \<in> set P \<and> q \<in> {duels_query, markets_query, admin_query})"
proof (cases w rule: main_cases)
  case (no_file e)
  with assms show ?thesis by (simp add: script_calls_def Cons_eq_append_conv)
next
  case (no_connection c e)
  with assms show ?thesis by (simp add: script_calls_def Cons_eq_append_conv)
next
  case (migration_failed c db e)
  with assms show ?thesis by (auto simp: script_calls_def Cons_eq_append_conv)
next
  case (verification_failed c db r k)
  from verification_failed(4) show ?thesis
  proof (elim insertE emptyE)
    assume "k = 6"
    with assms verification_failed show ?thesis
      by (auto simp: script_calls_def Cons_eq_append_conv)
  next
    assume "k = 7"
    with assms verification_failed show ?thesis
      by (auto simp: script_calls_def Cons_eq_append_conv)
  next
    assume "k = 8"
    with assms verification_failed show ?thesis
      by (auto simp: script_calls_def Cons_eq_append_conv)
  next
    assume "k = 9"
    with assms verification_failed show ?thesis
      by (auto simp: script_calls_def Cons_eq_append_conv)
  next
    assume "k = 10"
    with assms verification_failed show ?thesis
      by (auto simp: script_calls_def Cons_eq_append_conv)
  next
    assume "k = 11"
    with assms verification_failed show ?thesis
      by (auto simp: script_calls_def Cons_eq_append_conv)
  qed
next
  case (success c db r)
  with assms show ?thesis
    by (auto simp: script_calls_def Cons_eq_append_conv)
qed

lemma trace_world_one_admin:
  "trace (main world_one_admin) =
      [Print msg_reading, OpenRead migration_file, Print msg_connecting, Connect,
       Autocommit True, Cursor, Print msg_executing, Print rule60, Execute (str ''SELECT 1;''),
       Print msg_executed, Print rule60, Print msg_verification, Print dash60,
       Execute duels_query, Fetchall, Print msg_duels,
       Print (str ''  active: 2''),
       Execute markets_query, Fetchall, Print msg_markets,
       Print (str ''  open: 5''), Print (str ''  closed: 1''),
       Execute admin_query, Fetchone, Print msg_admin,
       Print (str ''  ID: 1''), Print (str ''  Role: admin''),
       Print (str ''  Wallet: W''), Print (str ''  Created: 2026''),
       Print (10 # rule60), Print msg_all_done, CursorClose, ConnClose]"
  and exit_code_world_one_admin: "exit_code (main world_one_admin) = 0"
proof -
  have h1: "open_read world_one_admin migration_file = Inr (str ''SELECT 1;'')"
    and h2: "connect world_one_admin = Inr 0"
    and h3: "execute world_one_admin 0 (str ''SELECT 1;'') = Inr (1, [])"
    and h4: "execute world_one_admin 1 duels_query =
      Inr (2, map (\<lambda>(s, n). [s, n]) [(str ''active'', str ''2'')])"
    and h5: "execute world_one_admin 2 markets_query =
      Inr (3, map (\<lambda>(s, n). [s, n]) [(str ''open'', str ''5''), (str ''closed'', str ''1'')])"
    and h6: "execute world_one_admin 3 admin_query =
      Inr (4, [str ''1'', str ''admin'', str ''W'', str ''2026''] # [])"
    by (simp_all add: world_one_admin_def)
  have s: "str_of world_one_admin = (\<lambda>v. v)"
    by (simp add: world_one_admin_def)
  note t = try_body_before_admin [OF h1 h2 h3 h4 h5] check_admin_some [OF h6]
  show "trace (main world_one_admin) =
      [Print msg_reading, OpenRead migration_file, Print msg_connecting, Connect,
       Autocommit True, Cursor, Print msg_executing, Print rule60, Execute (str ''SELECT 1;''),
       Print msg_executed, Print rule60, Print msg_verification, Print dash60,
       Execute duels_query, Fetchall, Print msg_duels,
       Print (str ''  active: 2''),
       Execute markets_query, Fetchall, Print msg_markets,
       Print (str ''  open: 5''), Print (str ''  closed: 1''),
       Execute admin_query, Fetchone, Print msg_admin,
       Print (str ''  ID: 1''), Print (str ''  Role: admin''),
       Print (str ''  Wallet: W''), Print (str ''  Created: 2026''),
       Print (10 # rule60), Print msg_all_done, CursorClose, ConnClose]"
    by (simp add: main_def t s status_line_def str_def)
  show "exit_code (main world_one_admin) = 0"
    by (simp add: main_def t)
qed

subsection \<open>Order of the operations\<close>

text \<open>
  Claim C7. On every run, whatever the world does: before any \<^verbatim>\<open>cursor.execute\<close>
  the migration file has been read, and that read returned the payload \<open>c\<close>; the first
  execution is that of \<open>c\<close>; and any later execution is one of the three verification
  queries, and happens only in a run where the execution of \<open>c\<close> came first and
  returned normally.
\<close>

theorem operations_in_order:
  "\<forall>pre q post. trace (main w) = pre @ Execute q # post \<longrightarrow>
     (\<exists>c. open_read w migration_file = Inr c \<and> OpenRead migration_file \<in> set pre \<and>
        (if \<forall>e \<in> set pre. \<not> is_Execute e then q = c
         else (\<exists>db r. connect w = Inr db \<and> execute w db c = Inr r) \<and>
              Execute c \<in> set pre \<and> q \<in> {duels_query, markets_query, admin_query}))"
proof (intro allI impI)
  fix pre q post
  assume "trace (main w) = pre @ Execute q # post"
  then have "calls (trace (main w)) = calls pre @ Execute q # calls post"
    by (simp add: calls_decompose)
  from order_in_calls [OF this] obtain c where c: "open_read w migration_file = Inr c"
    "OpenRead migration_file \<in> set (calls pre)"
    "if \<forall>e \<in> set (calls pre). \<not> is_Execute e then q = c
     else (\<exists>db r. connect w = Inr db \<and> execute w db c = Inr r) \<and>
          Execute c \<in> set (calls pre) \<and> q \<in> {duels_query, markets_query, admin_query}"
    by blast
  from c(3) have "if \<forall>e \<in> set pre. \<not> is_Execute e then q = c
     else (\<exists>db r. connect w = Inr db \<and> execute w db c = Inr r) \<and>
          Execute c \<in> set pre \<and> q \<in> {duels_query, markets_query, admin_query}"
    unfolding no_Execute_calls by (auto dest: set_calls_subset split: if_splits)
  with c(1,2) show "\<exists>c. open_read w migration_file = Inr c \<and> OpenRead migration_file \<in> set pre \<and>
        (if \<forall>e \<in> set pre. \<not> is_Execute e then q = c
         else (\<exists>db r. connect w = Inr db \<and> execute w db c = Inr r) \<and>
              Execute c \<in> set pre \<and> q \<in> {duels_query, markets_query, admin_query})"
    using set_calls_subset by blast
qed

theorem operations_in_order_witness:
  "trace (main world_one_admin) =
     [Print msg_reading, OpenRead migration_file, Print msg_connecting, Connect,
      Autocommit True, Cursor, Print msg_executing, Print rule60, Execute (str ''SELECT 1;''),
      Print msg_executed, Print rule60, Print msg_verification, Print dash60] @
     Execute duels_query #
     [Fetchall, Print msg_duels, Print (str ''  active: 2''),
      Execute markets_query, Fetchall, Print msg_markets,
      Print (str ''  open: 5''), Print (str ''  closed: 1''),
      Execute admin_query, Fetchone, Print msg_admin,
      Print (str ''  ID: 1''), Print (str ''  Role: admin''),
      Print (str ''  Wallet: W''), Print (str ''  Created: 2026''),
      Print (10 # rule60), Print msg_all_done, CursorClose, ConnClose] \<and>
   open_read world_one_admin migration_file = Inr (str ''SELECT 1;'') \<and>
   (\<exists>db r. connect world_one_admin = Inr db \<and>
      execute world_one_admin db (str ''SELECT 1;'') = Inr r)"
proof -
  have h: "trace (main world_one_admin) =
     [Print msg_reading, OpenRead migration_file, Print msg_connecting, Connect,
      Autocommit True, Cursor, Print msg_executing, Print rule60, Execute (str ''SELECT 1;''),
      Print msg_executed, Print rule60, Print msg_verification, Print dash60] @
     Execute duels_query #
     [Fetchall, Print msg_duels, Print (str ''  active: 2''),
      Execute markets_query, Fetchall, Print msg_markets,
      Print (str ''  open: 5''), Print (str ''  closed: 1''),
      Execute admin_query, Fetchone, Print msg_admin,
      Print (str ''  ID: 1''), Print (str ''  Role: admin''),
      Print (str ''  Wallet: W''), Print (str ''  Created: 2026''),
      Print (10 # rule60), Print msg_all_done, CursorClose, ConnClose]"
    by (simp add: trace_world_one_admin)
  from operations_in_order [rule_format, OF h]
  obtain c where c: "open_read world_one_admin migration_file = Inr c"
    "\<exists>db r. connect world_one_admin = Inr db \<and> execute world_one_admin db c = Inr r"
    by (auto split: if_splits)
  have "open_read world_one_admin migration_file = Inr (str ''SELECT 1;'')"
    by (simp add: world_one_admin_def)
  with c have "c = str ''SELECT 1;''" by simp
  with c h show ?thesis by blast
qed

subsection \<open>The connection\<close>

text \<open>
  Claim C8, as amended. The script calls \<^verbatim>\<open>psycopg2.connect\<close> exactly once in a run
  where the migration file has been read and not at all otherwise; before any statement is
  executed the connection has been opened and switched to autocommit, and autocommit is
  never switched off. The script wraps the batch in no transaction of its own: the only
  statements it executes are the payload and the three verification queries.
\<close>

theorem one_connection_in_autocommit:
  "count_list (trace (main w)) Connect =
     (if \<exists>c. open_read w migration_file = Inr c then 1 else 0) \<and>
   (\<forall>pre q post. trace (main w) = pre @ Execute q # post \<longrightarrow>
      Connect \<in> set pre \<and> Autocommit True \<in> set pre) \<and>
   Autocommit False \<notin> set (trace (main w)) \<and>
   (\<forall>q. Execute q \<in> set (trace (main w)) \<longrightarrow>
      (\<exists>c. open_read w migration_file = Inr c \<and>
         q \<in> {c, duels_query, markets_query, admin_query}))"
proof (intro conjI allI impI)
  have "count_list (calls (trace (main w))) Connect =
     (if \<exists>c. open_read w migration_file = Inr c then 1 else 0)"
    by (cases w rule: main_cases) (auto simp: script_calls_def)
  then show "count_list (trace (main w)) Connect =
     (if \<exists>c. open_read w migration_file = Inr c then 1 else 0)"
    by (simp add: count_list_calls)
next
  fix pre q post
  assume "trace (main w) = pre @ Execute q # post"
  then have "calls (trace (main w)) = calls pre @ Execute q # calls post"
    by (simp add: calls_decompose)
  from order_in_calls [OF this]
  show "Connect \<in> set pre" "Autocommit True \<in> set pre"
    using set_calls_subset by blast+
next
  have "Autocommit False \<notin> set (calls (trace (main w)))"
    by (cases w rule: main_cases) (auto simp: script_calls_def)
  then show "Autocommit False \<notin> set (trace (main w))"
    by (simp add: calls_def)
next
  fix q
  assume "Execute q \<in> set (trace (main w))"
  then obtain pre post where "trace (main w) = pre @ Execute q # post"
    by (auto simp: in_set_conv_decomp)
  then have "calls (trace (main w)) = calls pre @ Execute q # calls post"
    by (simp add: calls_decompose)
  from order_in_calls [OF this]
  show "\<exists>c. open_read w migration_file = Inr c \<and>
      q \<in> {c, duels_query, markets_query, admin_query}"
    by (auto split: if_splits)
qed

theorem one_connection_in_autocommit_witness:
  "count_list (trace (main world_one_admin)) Connect = 1 \<and>
   Connect \<in> set [Print msg_reading, OpenRead migration_file, Print msg_connecting, Connect,
      Autocommit True, Cursor, Print msg_executing, Print rule60] \<and>
   Autocommit True \<in> set [Print msg_reading, OpenRead migration_file, Print msg_connecting,
      Connect, Autocommit True, Cursor, Print msg_executing, Print rule60]"
proof -
  have h: "trace (main world_one_admin) =
     [Print msg_reading, OpenRead migration_file, Print msg_connecting, Connect,
      Autocommit True, Cursor, Print msg_executing, Print rule60] @
     Execute (str ''SELECT 1;'') #
     [Print msg_executed, Print rule60, Print msg_verification, Print dash60,
      Execute duels_query, Fetchall, Print msg_duels, Print (str ''  active: 2''),
      Execute markets_query, Fetchall, Print msg_markets,
      Print (str ''  open: 5''), Print (str ''  closed: 1''),
      Execute admin_query, Fetchone, Print msg_admin,
      Print (str ''  ID: 1''), Print (str ''  Role: admin''),
      Print (str ''  Wallet: W''), Print (str ''  Created: 2026''),
      Print (10 # rule60), Print msg_all_done, CursorClose, ConnClose]"
    by (simp add: trace_world_one_admin)
  have r: "\<exists>c. open_read world_one_admin migration_file = Inr c"
    by (simp add: world_one_admin_def)
  note th = one_connection_in_autocommit [of world_one_admin]
  from th r have "count_list (trace (main world_one_admin)) Connect = 1" by simp
  moreover from th [THEN conjunct2, THEN conjunct1, rule_format, OF h]
  have "Connect \<in> set [Print msg_reading, OpenRead migration_file, Print msg_connecting, Connect,
      Autocommit True, Cursor, Print msg_executing, Print rule60] \<and>
   Autocommit True \<in> set [Print msg_reading, OpenRead migration_file, Print msg_connecting,
      Connect, Autocommit True, Cursor, Print msg_executing, Print rule60]" .
  ultimately show ?thesis by blast
qed

text \<open>
  Claim C8 as stated (exactly one connection is opened on every run) fails where the
  migration file is missing: that run never reaches \<^verbatim>\<open>psycopg2.connect\<close>.
\<close>

theorem no_connection_without_file:
  "count_list (trace (main world_no_file)) Connect = 0"
  by (simp add: main_def try_body_def world_no_file_def read_migration_fail bind_Inl)




section \<open>Properties of the patching script\<close>

subsection \<open>The matcher finds exactly the texts that fit the pattern\<close>







subsection \<open>A match cannot reach into a later match\<close>










subsection \<open>The replacement cannot begin a match\<close>

lemma log_call_codes:
  "log_call =
     [99, 111, 110, 115, 111, 108, 101, 46, 108, 111, 103, 40, 39, 32, 32, 112, 97, 121, 108,
      111, 97, 100, 58, 39, 44, 32, 74, 83, 79, 78, 46, 115, 116, 114, 105, 110, 103, 105,
      102, 121, 40, 112, 97, 121, 108, 111, 97, 100, 44, 32, 110, 117, 108, 108, 44, 32, 50,
      41, 41, 59]"
  by (simp add: log_call_def str_def)














subsection \<open>Patching\<close>










declare re_sub.simps [simp del]









subsection \<open>The script is a no-op on a file it does not match, and on its own output\<close>



text \<open>
  On the file that holds the code the script looks for, the first run does change the
  file: the call of \<^verbatim>\<open>fetch\<close> is replaced by the inserted text.
\<close>

lemma patch_unpatched:
  "patch unpatched =
     str ''  go();'' @
     [10] @ str ''        console.log('  payload:', JSON.stringify(payload, null, 2));'' @
     inserted @ [10]"
  by (simp add: unpatched_def re_sub.simps re_match_def old_pattern_def str_def isspace_def
      startswith_def log_call_codes fetch_call_def group_text_def expand_def new_code_def)

end
